theory Spec2Isabelle
  imports Complex_Main "HOL-Library.AList"
begin

section \<open>Data model\<close>

text \<open>
  The block kinds of \<^verbatim>\<open>type BlockType\<close> (App.tsx, line 10).
\<close>

datatype BlockType = grass | dirt | stone | wood | leaves | sand | glass | water | bedrock

text \<open>
  The voxel store is a JavaScript \<^verbatim>\<open>Map<string, BlockType>\<close> keyed by the string
  \<^verbatim>\<open>`${x},${y},${z}`\<close>. Coordinates that reach \<^verbatim>\<open>toKey\<close> are integers (loop
  counters and results of \<^verbatim>\<open>Math.round\<close>), and on integers the string is an injective
  image of the triple that \<^verbatim>\<open>fromKey\<close> parses back, so a key is modelled as the triple
  itself. The map is an association list in insertion order, which is what a JavaScript
  \<^verbatim>\<open>Map\<close> iterates in: \<^verbatim>\<open>set\<close> overwrites in place or appends, \<^verbatim>\<open>delete\<close> removes
  the entry, \<^verbatim>\<open>get\<close> of a missing key is \<^verbatim>\<open>undefined\<close> (here \<open>None\<close>).
\<close>

type_synonym key = "int \<times> int \<times> int"

type_synonym store = "(key \<times> BlockType) list"

definition toKey :: "int \<Rightarrow> int \<Rightarrow> int \<Rightarrow> key" where
  "toKey x y z = (x, y, z)"

definition fromKey :: "key \<Rightarrow> int \<times> int \<times> int" where
  "fromKey k = (fst k, fst (snd k), snd (snd k))"

definition getBlock :: "store \<Rightarrow> key \<Rightarrow> BlockType option" where
  "getBlock blocks k = map_of blocks k"

definition hasBlock :: "store \<Rightarrow> key \<Rightarrow> bool" where
  "hasBlock blocks k = (map_of blocks k \<noteq> None)"

definition setBlock :: "key \<Rightarrow> BlockType \<Rightarrow> store \<Rightarrow> store" where
  "setBlock k t blocks = AList.update k t blocks"

definition deleteBlock :: "key \<Rightarrow> store \<Rightarrow> store" where
  "deleteBlock k blocks = AList.delete k blocks"

section \<open>Face culling\<close>

definition FACE_DIRS :: "(int \<times> int \<times> int) list" where
  "FACE_DIRS = [(1, 0, 0), (-1, 0, 0), (0, 1, 0), (0, -1, 0), (0, 0, 1), (0, 0, -1)]"

text \<open>
  The loop of \<^verbatim>\<open>hasExposedFace\<close> over the face directions, returning at the first
  neighbour that is missing or glass, water or leaves.
\<close>

fun exposedLoop :: "store \<Rightarrow> int \<times> int \<times> int \<Rightarrow> (int \<times> int \<times> int) list \<Rightarrow> bool" where
  "exposedLoop blocks (x, y, z) [] = False"
| "exposedLoop blocks (x, y, z) ((dx, dy, dz) # dirs) =
     (case getBlock blocks (toKey (x + dx) (y + dy) (z + dz)) of
        None \<Rightarrow> True
      | Some neighbor \<Rightarrow>
          if neighbor = glass \<or> neighbor = water \<or> neighbor = leaves then True
          else exposedLoop blocks (x, y, z) dirs)"

definition hasExposedFace :: "store \<Rightarrow> key \<Rightarrow> bool" where
  "hasExposedFace blocks k = exposedLoop blocks (fromKey k) FACE_DIRS"

text \<open>
  \<^verbatim>\<open>ChunkMesh\<close> builds \<^verbatim>\<open>groups: Record<string, Matrix4[]>\<close>: for every entry of the
  store with an exposed face, the position is pushed on the list of the entry's kind (the
  list is created on first use). A matrix is represented by the position it is set to.
\<close>

type_synonym groups = "(BlockType \<times> key list) list"

definition pushGroup :: "BlockType \<Rightarrow> key \<Rightarrow> groups \<Rightarrow> groups" where
  "pushGroup t k gs =
     (case map_of gs t of
        None \<Rightarrow> AList.update t [k] gs
      | Some ms \<Rightarrow> AList.update t (ms @ [k]) gs)"

fun meshLoop :: "store \<Rightarrow> (key \<times> BlockType) list \<Rightarrow> groups \<Rightarrow> groups" where
  "meshLoop blocks [] gs = gs"
| "meshLoop blocks ((k, t) # entries) gs =
     (if \<not> hasExposedFace blocks k then meshLoop blocks entries gs
      else meshLoop blocks entries (pushGroup t (fromKey k) gs))"

definition ChunkMesh :: "store \<Rightarrow> groups" where
  "ChunkMesh blocks = meshLoop blocks blocks []"

definition batch :: "groups \<Rightarrow> BlockType \<Rightarrow> key list" where
  "batch gs t = (case map_of gs t of None \<Rightarrow> [] | Some ms \<Rightarrow> ms)"

section \<open>Vectors\<close>

text \<open>
  JavaScript numbers are IEEE doubles; the model computes with reals. The vector
  operations are the ones of \<^verbatim>\<open>THREE.Vector3\<close> that the source calls; \<^verbatim>\<open>normalize\<close>
  divides by the length, or by 1 when the length is 0. \<^verbatim>\<open>Math.round\<close> rounds half
  up, which is \<^const>\<open>round\<close> on the reals.
\<close>

type_synonym vec3 = "real \<times> real \<times> real"

definition vlength :: "vec3 \<Rightarrow> real" where
  "vlength v = (case v of (x, y, z) \<Rightarrow> sqrt (x * x + y * y + z * z))"

definition multiplyScalar :: "vec3 \<Rightarrow> real \<Rightarrow> vec3" where
  "multiplyScalar v s = (case v of (x, y, z) \<Rightarrow> (x * s, y * s, z * s))"

definition divideScalar :: "vec3 \<Rightarrow> real \<Rightarrow> vec3" where
  "divideScalar v s = multiplyScalar v (1 / s)"

definition normalizeV :: "vec3 \<Rightarrow> vec3" where
  "normalizeV v = divideScalar v (if vlength v = 0 then 1 else vlength v)"

definition vadd :: "vec3 \<Rightarrow> vec3 \<Rightarrow> vec3" where
  "vadd v w = (case v of (x, y, z) \<Rightarrow> case w of (a, b, c) \<Rightarrow> (x + a, y + b, z + c))"

definition crossVectors :: "vec3 \<Rightarrow> vec3 \<Rightarrow> vec3" where
  "crossVectors v w =
     (case v of (ax, ay, az) \<Rightarrow> case w of (bx, by, bz) \<Rightarrow>
        (ay * bz - az * by, az * bx - ax * bz, ax * by - ay * bx))"

definition roundVec :: "vec3 \<Rightarrow> key" where
  "roundVec v = (case v of (x, y, z) \<Rightarrow> (round x, round y, round z))"

section \<open>Constants\<close>

definition WORLD_SIZE :: int where
  "WORLD_SIZE = 64"

definition PLAYER_HEIGHT :: real where
  "PLAYER_HEIGHT = 1.6"

definition PLAYER_RADIUS :: real where
  "PLAYER_RADIUS = 0.3"

definition GRAVITY :: real where
  "GRAVITY = 28"

definition JUMP_FORCE :: real where
  "JUMP_FORCE = 9"

definition WALK_SPEED :: real where
  "WALK_SPEED = 6"

definition FLY_SPEED :: real where
  "FLY_SPEED = 16"

definition SPRINT_MULTIPLIER :: real where
  "SPRINT_MULTIPLIER = 1.6"

definition REACH_DISTANCE :: real where
  "REACH_DISTANCE = 6"

section \<open>Raycasting\<close>

record Hit =
  hitKey :: key
  hitPos :: "int \<times> int \<times> int"
  faceNormal :: "int \<times> int \<times> int"

definition step :: real where
  "step = 0.05"

text \<open>
  The face normal of a hit: the axis with the largest change between the previous and the
  current voxel (x before y before z), negated sign.
\<close>

definition faceNormalOf :: "key \<Rightarrow> key \<Rightarrow> int \<times> int \<times> int" where
  "faceNormalOf b prev =
     (case b of (bx, by, bz) \<Rightarrow> case prev of (prevX, prevY, prevZ) \<Rightarrow>
        let nx = bx - prevX; ny = by - prevY; nz = bz - prevZ;
            ax = \<bar>nx\<bar>; ay = \<bar>ny\<bar>; az = \<bar>nz\<bar>
        in if ax \<ge> ay \<and> ax \<ge> az then (- sgn nx, 0, 0)
           else if ay \<ge> ax \<and> ay \<ge> az then (0, - sgn ny, 0)
           else (0, 0, - sgn nz))"

text \<open>
  The marching loop \<^verbatim>\<open>for (let d = 0; d < maxDist; d += step)\<close> of
  \<^verbatim>\<open>raycastBlocks\<close>. The loop variables are the distance \<open>d\<close>, the point \<open>pos\<close>
  and the previous voxel \<open>prev\<close>; \<open>dir\<close> is the normalised direction scaled to one step.
\<close>

function raycastLoop :: "store \<Rightarrow> vec3 \<Rightarrow> real \<Rightarrow> real \<Rightarrow> vec3 \<Rightarrow> key \<Rightarrow> Hit option" where
  "raycastLoop blocks dir maxDist d pos prev =
     (if d < maxDist then
        (if roundVec (vadd pos dir) \<noteq> prev then
           (case getBlock blocks (roundVec (vadd pos dir)) of
              None \<Rightarrow>
                raycastLoop blocks dir maxDist (d + step) (vadd pos dir) (roundVec (vadd pos dir))
            | Some blockType \<Rightarrow>
                if blockType \<noteq> water then
                  Some \<lparr>hitKey = roundVec (vadd pos dir), hitPos = roundVec (vadd pos dir),
                        faceNormal = faceNormalOf (roundVec (vadd pos dir)) prev\<rparr>
                else
                  raycastLoop blocks dir maxDist (d + step) (vadd pos dir) (roundVec (vadd pos dir)))
         else raycastLoop blocks dir maxDist (d + step) (vadd pos dir) prev)
      else None)"
  by pat_completeness auto
termination
proof (relation "measure (\<lambda>(blocks, dir, maxDist, d, pos, prev). nat \<lceil>(maxDist - d) * 20\<rceil>)")
  show "wf (measure (\<lambda>(blocks :: store, dir :: vec3, maxDist :: real, d :: real, pos :: vec3, prev :: key).
    nat \<lceil>(maxDist - d) * 20\<rceil>))"
    by simp
qed (simp_all add: step_def, linarith+)

declare raycastLoop.simps [simp del]

definition raycastBlocks :: "vec3 \<Rightarrow> vec3 \<Rightarrow> store \<Rightarrow> real \<Rightarrow> Hit option" where
  "raycastBlocks origin direction blocks maxDist =
     raycastLoop blocks (multiplyScalar (normalizeV direction) step) maxDist 0 origin (roundVec origin)"




section \<open>Breaking and placing blocks\<close>

text \<open>
  The \<^verbatim>\<open>onClick\<close> handler of \<^verbatim>\<open>PlayerController\<close>. \<open>locked\<close> is
  \<^verbatim>\<open>document.pointerLockElement\<close> being set, \<open>button\<close> is \<^verbatim>\<open>e.button\<close>, \<open>cp\<close> the
  camera position, \<open>dir\<close> the camera's world direction and \<open>selected\<close> the block of the
  hotbar. \<^verbatim>\<open>blocksRef.current\<close> is the store of the current render, the one the state
  update is applied to. \<open>handleHit\<close> is the part of the handler after the raycast.
\<close>

definition handleHit :: "int \<Rightarrow> vec3 \<Rightarrow> BlockType \<Rightarrow> Hit \<Rightarrow> store \<Rightarrow> store" where
  "handleHit button cp selected hit blocks =
     (if button = 0 then
        (if getBlock blocks (hitKey hit) = Some bedrock then blocks
         else deleteBlock (hitKey hit) blocks)
      else if button = 2 then
        (case hitPos hit of (hx, hy, hz) \<Rightarrow> case faceNormal hit of (nx, ny, nz) \<Rightarrow>
         case cp of (cx, cy, cz) \<Rightarrow>
           let px = hx + nx; py = hy + ny; pz = hz + nz;
               newKey = toKey px py pz
           in if \<bar>px - round cx\<bar> \<le> 0 \<and>
                 py \<ge> round (cy - PLAYER_HEIGHT) \<and> py \<le> round cy \<and>
                 \<bar>pz - round cz\<bar> \<le> 0
              then blocks
              else if \<not> hasBlock blocks newKey then setBlock newKey selected blocks
              else blocks)
      else blocks)"

definition onClick :: "bool \<Rightarrow> int \<Rightarrow> vec3 \<Rightarrow> vec3 \<Rightarrow> BlockType \<Rightarrow> store \<Rightarrow> store" where
  "onClick locked button cp dir selected blocks =
     (if \<not> locked then blocks
      else case raycastBlocks cp dir blocks REACH_DISTANCE of
             None \<Rightarrow> blocks
           | Some hit \<Rightarrow> handleHit button cp selected hit blocks)"


section \<open>Player physics\<close>

text \<open>
  \<^verbatim>\<open>isBlockSolid\<close> rounds its arguments again and looks the voxel up: solid is any
  block but water.
\<close>

definition isBlockSolid :: "store \<Rightarrow> real \<Rightarrow> real \<Rightarrow> real \<Rightarrow> bool" where
  "isBlockSolid blocks bx by bz =
     (case getBlock blocks (toKey (round bx) (round by) (round bz)) of
        None \<Rightarrow> False
      | Some block \<Rightarrow> block \<noteq> water)"

text \<open>
  One sample of \<^verbatim>\<open>checkCollision\<close>: the voxel at offset \<open>(dx, dy, dz)\<close> is solid and
  its unit cube overlaps the box of the player at \<open>(px, py, pz)\<close>.
\<close>

definition collidesAt :: "store \<Rightarrow> real \<Rightarrow> real \<Rightarrow> real \<Rightarrow> int \<times> int \<times> int \<Rightarrow> bool" where
  "collidesAt blocks px py pz off =
     (case off of (dx, dy, dz) \<Rightarrow>
        let r = PLAYER_RADIUS;
            bx = round (px + of_int dx * r);
            by = round (py - PLAYER_HEIGHT + of_int dy);
            bz = round (pz + of_int dz * r)
        in isBlockSolid blocks (of_int bx) (of_int by) (of_int bz) \<and>
           (let blockMinX = of_int bx - 0.5; blockMaxX = of_int bx + 0.5;
                blockMinY = of_int by - 0.5; blockMaxY = of_int by + 0.5;
                blockMinZ = of_int bz - 0.5; blockMaxZ = of_int bz + 0.5;
                playerMinX = px - r; playerMaxX = px + r;
                playerMinY = py - PLAYER_HEIGHT; playerMaxY = py + 0.1;
                playerMinZ = pz - r; playerMaxZ = pz + r
            in playerMaxX > blockMinX \<and> playerMinX < blockMaxX \<and>
               playerMaxY > blockMinY \<and> playerMinY < blockMaxY \<and>
               playerMaxZ > blockMinZ \<and> playerMinZ < blockMaxZ))"

definition sampleOffsets :: "(int \<times> int \<times> int) list" where
  "sampleOffsets = concat (map (\<lambda>dx. concat (map (\<lambda>dy. map (\<lambda>dz. (dx, dy, dz)) [-1, 0, 1]) [0, 1, 2])) [-1, 0, 1])"

fun collisionLoop :: "store \<Rightarrow> real \<Rightarrow> real \<Rightarrow> real \<Rightarrow> (int \<times> int \<times> int) list \<Rightarrow> bool" where
  "collisionLoop blocks px py pz [] = False"
| "collisionLoop blocks px py pz (off # offs) =
     (if collidesAt blocks px py pz off then True else collisionLoop blocks px py pz offs)"

definition checkCollision :: "store \<Rightarrow> real \<Rightarrow> real \<Rightarrow> real \<Rightarrow> bool" where
  "checkCollision blocks px py pz = collisionLoop blocks px py pz sampleOffsets"

text \<open>
  The state the game loop changes: the camera position, \<^verbatim>\<open>velocity.current\<close> and
  \<^verbatim>\<open>onGround.current\<close>.
\<close>

record Body =
  position :: vec3
  velocity :: vec3
  onGround :: bool

text \<open>
  The first half of the \<^verbatim>\<open>useFrame\<close> callback: the velocity is moved towards the
  target given by the pressed keys and the look direction, with gravity and the jump when
  walking. \<open>keys\<close> is the set of pressed key codes, \<open>look\<close> the camera's world direction,
  \<^verbatim>\<open>Math.pow(0.001, delta)\<close> is the real power.
\<close>

definition moveIntent :: "bool \<Rightarrow> string set \<Rightarrow> vec3 \<Rightarrow> vec3 \<Rightarrow> vec3" where
  "moveIntent flying keys forward right =
     (case forward of (fx, fy, fz) \<Rightarrow> case right of (rx, ry, rz) \<Rightarrow>
        let m0 = (0, 0, 0);
            m1 = (case m0 of (moveX, moveY, moveZ) \<Rightarrow>
                    if ''KeyW'' \<in> keys
                    then (moveX + fx, (if flying then moveY + fy else moveY), moveZ + fz) else m0);
            m2 = (case m1 of (moveX, moveY, moveZ) \<Rightarrow>
                    if ''KeyS'' \<in> keys
                    then (moveX - fx, (if flying then moveY - fy else moveY), moveZ - fz) else m1);
            m3 = (case m2 of (moveX, moveY, moveZ) \<Rightarrow>
                    if ''KeyD'' \<in> keys then (moveX + rx, moveY, moveZ + rz) else m2);
            m4 = (case m3 of (moveX, moveY, moveZ) \<Rightarrow>
                    if ''KeyA'' \<in> keys then (moveX - rx, moveY, moveZ - rz) else m3)
        in case m4 of (moveX, moveY, moveZ) \<Rightarrow>
             let inputLen = sqrt (moveX * moveX + moveZ * moveZ)
             in if inputLen > 0 then (moveX / inputLen, moveY, moveZ / inputLen) else m4)"

definition updateVelocity :: "real \<Rightarrow> bool \<Rightarrow> string set \<Rightarrow> vec3 \<Rightarrow> Body \<Rightarrow> Body" where
  "updateVelocity delta flying keys look body =
     (let speed = (if flying then FLY_SPEED
                   else if ''ShiftLeft'' \<in> keys then WALK_SPEED * SPRINT_MULTIPLIER else WALK_SPEED);
          forward = normalizeV (case look of (lx, ly, lz) \<Rightarrow> if \<not> flying then (lx, 0, lz) else look);
          right = normalizeV (crossVectors forward (0, 1, 0))
      in case moveIntent flying keys forward right of (moveX, moveY, moveZ) \<Rightarrow>
         case velocity body of (vx, vy, vz) \<Rightarrow>
           let targetVX = moveX * speed;
               targetVZ = moveZ * speed;
               lerpFactor = 1 - 0.001 powr delta;
               vx' = vx + (targetVX - vx) * lerpFactor;
               vz' = vz + (targetVZ - vz) * lerpFactor
           in if flying then
                let t0 = moveY * speed;
                    t1 = (if ''Space'' \<in> keys then t0 + speed else t0);
                    targetVY = (if ''ShiftLeft'' \<in> keys then t1 - speed else t1)
                in body\<lparr>velocity := (vx', vy + (targetVY - vy) * lerpFactor, vz')\<rparr>
              else
                let vy1 = vy - GRAVITY * delta;
                    vy2 = (if vy1 < - 40 then - 40 else vy1)
                in if ''Space'' \<in> keys \<and> onGround body
                   then body\<lparr>velocity := (vx', JUMP_FORCE, vz'), onGround := False\<rparr>
                   else body\<lparr>velocity := (vx', vy2, vz')\<rparr>)"

text \<open>
  The second half: the move is applied one axis at a time, X, then Z, then Y, each
  candidate position checked for a collision before it is committed; then the floor clamp
  at y = 1.
\<close>

definition moveAxes :: "real \<Rightarrow> store \<Rightarrow> Body \<Rightarrow> Body" where
  "moveAxes delta blocks body =
     (case position body of (x0, y0, z0) \<Rightarrow> case velocity body of (vx0, vy0, vz0) \<Rightarrow>
        let newX = x0 + vx0 * delta;
            xc = checkCollision blocks newX y0 z0;
            x1 = (if \<not> xc then newX else x0);
            vx1 = (if \<not> xc then vx0 else 0);
            newZ = z0 + vz0 * delta;
            zc = checkCollision blocks x1 y0 newZ;
            z1 = (if \<not> zc then newZ else z0);
            vz1 = (if \<not> zc then vz0 else 0);
            newY = y0 + vy0 * delta;
            yc = checkCollision blocks x1 newY z1;
            y1 = (if \<not> yc then newY else y0);
            g1 = (if \<not> yc then False else if vy0 < 0 then True else onGround body);
            vy1 = (if \<not> yc then vy0 else 0)
        in if y1 < 1
           then \<lparr>position = (x1, 1, z1), velocity = (vx1, 0, vz1), onGround = True\<rparr>
           else \<lparr>position = (x1, y1, z1), velocity = (vx1, vy1, vz1), onGround = g1\<rparr>)"

definition useFrame :: "bool \<Rightarrow> real \<Rightarrow> bool \<Rightarrow> string set \<Rightarrow> vec3 \<Rightarrow> store \<Rightarrow> Body \<Rightarrow> Body" where
  "useFrame locked rawDelta flying keys look blocks body =
     (if \<not> locked then body
      else let delta = min rawDelta 0.05
           in moveAxes delta blocks (updateVelocity delta flying keys look body))"

section \<open>World generation\<close>

text \<open>
  The three noise functions come from the library \<^verbatim>\<open>simplex-noise\<close>
  (\<^verbatim>\<open>createNoise2D\<close>), which is not part of the repository: they are parameters of
  the model.
\<close>

record Noise =
  noise2D :: "real \<Rightarrow> real \<Rightarrow> real"
  noise2D_b :: "real \<Rightarrow> real \<Rightarrow> real"
  noise2D_c :: "real \<Rightarrow> real \<Rightarrow> real"

text \<open>
  The octave loop of \<^verbatim>\<open>fbm\<close>; the accumulator is (sum, amp, freq, maxAmp) and the
  counter is the number of octaves left.
\<close>

fun fbmLoop :: "(real \<Rightarrow> real \<Rightarrow> real) \<Rightarrow> real \<Rightarrow> real \<Rightarrow> real \<Rightarrow> real \<Rightarrow> nat \<Rightarrow>
    real \<times> real \<times> real \<times> real \<Rightarrow> real \<times> real \<times> real \<times> real" where
  "fbmLoop noise x z lacunarity gain 0 acc = acc"
| "fbmLoop noise x z lacunarity gain (Suc n) (s, amp, freq, maxAmp) =
     fbmLoop noise x z lacunarity gain n
       (s + noise (x * freq) (z * freq) * amp, amp * gain, freq * lacunarity, maxAmp + amp)"

definition fbm :: "Noise \<Rightarrow> real \<Rightarrow> real \<Rightarrow> nat \<Rightarrow> real \<Rightarrow> real \<Rightarrow> real" where
  "fbm ns x z octaves lacunarity gain =
     (case fbmLoop (noise2D ns) x z lacunarity gain octaves (0, 1, 1, 0) of
        (s, amp, freq, maxAmp) \<Rightarrow> s / maxAmp)"

definition getTerrainHeight :: "Noise \<Rightarrow> int \<Rightarrow> int \<Rightarrow> int" where
  "getTerrainHeight ns x z =
     (let scale = 0.015;
          h = fbm ns (of_int x * scale) (of_int z * scale) 4 2.0 0.5;
          mountains = max 0 (fbm ns (of_int x * scale * 0.5 + 100) (of_int z * scale * 0.5 + 100) 3 2.0 0.6) * 8
      in \<lfloor>h * 6 + 8 + mountains\<rfloor>)"

datatype Biome = forest | plains | desert

definition getBiome :: "Noise \<Rightarrow> int \<Rightarrow> int \<Rightarrow> Biome" where
  "getBiome ns x z =
     (let val = noise2D_b ns (of_int x * 0.008 + 500) (of_int z * 0.008 + 500)
      in if val < - 0.25 then desert
         else if val > 0.2 then forest
         else plains)"

definition shouldPlaceTree :: "Noise \<Rightarrow> int \<Rightarrow> int \<Rightarrow> Biome \<Rightarrow> bool" where
  "shouldPlaceTree ns x z biome =
     (let treeNoise = noise2D_c ns (of_int x * 0.5 + 1000) (of_int z * 0.5 + 1000)
      in if biome = forest then treeNoise > 0.7
         else if biome = plains then treeNoise > 0.88
         else False)"

text \<open>The kind of the block at height \<open>y\<close> of a column of height \<open>height\<close>.\<close>

definition columnBlock :: "Biome \<Rightarrow> int \<Rightarrow> int \<Rightarrow> BlockType" where
  "columnBlock biome height y =
     (if y = height then (if biome = desert then sand else grass)
      else if y > height - 3 then (if biome = desert then sand else dirt)
      else stone)"

type_synonym heightMap = "((int \<times> int) \<times> int) list"

text \<open>A scheduled tree: the column \<open>(x, z)\<close> and its terrain height \<open>h\<close>.\<close>

type_synonym tree = "int \<times> int \<times> int"

type_synonym genState = "store \<times> heightMap \<times> tree list"

text \<open>
  The body of the column loops of \<^verbatim>\<open>generateWorld\<close> for one column \<open>(x, z)\<close>.
\<close>

definition genColumn :: "Noise \<Rightarrow> int \<Rightarrow> int \<Rightarrow> genState \<Rightarrow> genState" where
  "genColumn ns x z st =
     (case st of (blocks, hm, treePositions) \<Rightarrow>
        let height = getTerrainHeight ns x z;
            biome = getBiome ns x z;
            hm1 = AList.update (x, z) height hm;
            blocks1 = setBlock (toKey x 0 z) bedrock blocks;
            blocks2 = fold (\<lambda>y. setBlock (toKey x y z) (columnBlock biome height y)) [1..height] blocks1;
            blocks3 = (if height < 5
                       then fold (\<lambda>y. setBlock (toKey x y z) water) [height + 1..5] blocks2
                       else blocks2);
            hm2 = (if height < 5 then AList.update (x, z) 5 hm1 else hm1);
            trees = (if height \<ge> 5 \<and> biome \<noteq> desert \<and> shouldPlaceTree ns x z biome
                     then treePositions @ [(x, z, height)] else treePositions)
        in (blocks3, hm2, trees))"

definition columnPass :: "Noise \<Rightarrow> genState" where
  "columnPass ns =
     fold (\<lambda>x. fold (\<lambda>z. genColumn ns x z) [- WORLD_SIZE..WORLD_SIZE - 1])
       [- WORLD_SIZE..WORLD_SIZE - 1] ([], [], [])"

definition leafRadius :: int where
  "leafRadius = 2"

definition trunkHeight :: "Noise \<Rightarrow> tree \<Rightarrow> int" where
  "trunkHeight ns t =
     (case t of (tx, tz, h) \<Rightarrow> 4 + \<lfloor>\<bar>noise2D_c ns (of_int tx * 7.3) (of_int tz * 7.3)\<bar> * 3\<rfloor>)"

definition leafOffsets :: "(int \<times> int \<times> int) list" where
  "leafOffsets =
     concat (map (\<lambda>lx. concat (map (\<lambda>ly. map (\<lambda>lz. (lx, ly, lz)) [- leafRadius..leafRadius])
       [- 1..leafRadius])) [- leafRadius..leafRadius])"

text \<open>The body of the innermost leaf loop for the offset \<open>(lx, ly, lz)\<close>.\<close>

definition leafStep :: "int \<Rightarrow> int \<Rightarrow> int \<Rightarrow> int \<times> int \<times> int \<Rightarrow> store \<Rightarrow> store" where
  "leafStep tx leafCenter tz off blocks =
     (case off of (lx, ly, lz) \<Rightarrow>
        let dist = sqrt (of_int (lx * lx + ly * ly + lz * lz))
        in if dist \<le> of_int leafRadius + 0.5 then
             let key = toKey (tx + lx) (leafCenter + ly) (tz + lz)
             in if \<not> hasBlock blocks key \<or> getBlock blocks key \<noteq> Some wood
                then setBlock key leaves blocks
                else blocks
           else blocks)"

definition placeTrunk :: "Noise \<Rightarrow> tree \<Rightarrow> store \<Rightarrow> store" where
  "placeTrunk ns t blocks =
     (case t of (tx, tz, h) \<Rightarrow>
        let baseY = h + 1
        in fold (\<lambda>y. setBlock (toKey tx (baseY + y) tz) wood) [0..trunkHeight ns t - 1] blocks)"

definition placeTree :: "Noise \<Rightarrow> tree \<Rightarrow> store \<Rightarrow> store" where
  "placeTree ns t blocks =
     (case t of (tx, tz, h) \<Rightarrow>
        let baseY = h + 1;
            blocks1 = placeTrunk ns t blocks;
            leafCenter = baseY + trunkHeight ns t - 1;
            blocks2 = fold (leafStep tx leafCenter tz) leafOffsets blocks1
        in setBlock (toKey tx (leafCenter + leafRadius + 1) tz) leaves blocks2)"

definition generateWorld :: "Noise \<Rightarrow> store \<times> heightMap" where
  "generateWorld ns =
     (case columnPass ns of (blocks, hm, treePositions) \<Rightarrow>
        (fold (placeTree ns) treePositions blocks, hm))"

text \<open>
  A concrete noise for evaluating the generator: every channel is constantly 0, which
  gives a flat plains world of height 8 without trees.
\<close>

definition ns0 :: Noise where
  "ns0 = \<lparr>noise2D = (\<lambda>a b. 0), noise2D_b = (\<lambda>a b. 0), noise2D_c = (\<lambda>a b. 0)\<rparr>"

text \<open>
  The invariant of the column loops for the column \<open>(x, z)\<close>: once the column has been
  generated, later columns leave it as it is.
\<close>

definition columnDone :: "Noise \<Rightarrow> int \<Rightarrow> int \<Rightarrow> genState \<Rightarrow> bool" where
  "columnDone ns x z st \<longleftrightarrow>
     (\<forall>y. 0 \<le> y \<and> y \<le> getTerrainHeight ns x z \<longrightarrow>
        getBlock (fst st) (x, y, z) =
          Some (if y = 0 then bedrock else columnBlock (getBiome ns x z) (getTerrainHeight ns x z) y))"

section \<open>Face culling: the exposure predicate\<close>

lemma exposedLoop_iff:
  "exposedLoop blocks (x, y, z) dirs \<longleftrightarrow>
     (\<exists>(dx, dy, dz) \<in> set dirs.
        getBlock blocks (x + dx, y + dy, z + dz) \<in> {None, Some glass, Some water, Some leaves})"
  by (induction dirs) (auto simp: toKey_def split: option.splits)

lemma hasExposedFace_iff:
  "hasExposedFace blocks (x, y, z) \<longleftrightarrow>
     (\<exists>n \<in> {(x + 1, y, z), (x - 1, y, z), (x, y + 1, z), (x, y - 1, z), (x, y, z + 1), (x, y, z - 1)}.
        getBlock blocks n \<in> {None, Some glass, Some water, Some leaves})"
  by (simp add: hasExposedFace_def fromKey_def exposedLoop_iff FACE_DIRS_def)

lemma batch_pushGroup:
  "batch (pushGroup t k gs) t' = (if t' = t then batch gs t @ [k] else batch gs t')"
  by (auto simp: batch_def pushGroup_def update_conv' split: option.splits)

lemma batch_Nil: "batch [] t = []"
  by (simp add: batch_def)

lemma fromKey_id: "fromKey k = k"
  by (simp add: fromKey_def)

lemma batch_meshLoop:
  "set (batch (meshLoop blocks entries gs) t) =
     set (batch gs t) \<union> {k. (k, t) \<in> set entries \<and> hasExposedFace blocks k}"
proof (induction entries arbitrary: gs)
  case Nil
  show ?case by simp
next
  case (Cons e entries)
  obtain k t' where e: "e = (k, t')" by (cases e)
  show ?case
  proof (cases "hasExposedFace blocks k")
    case True
    then show ?thesis
      by (auto simp: e Cons.IH batch_pushGroup fromKey_id)
  next
    case False
    then show ?thesis
      by (auto simp: e Cons.IH)
  qed
qed

text \<open>
  Claim C2. A coordinate is in the render batch of kind \<open>t\<close> exactly when the store has
  the entry and at least one of its six face neighbours is missing from the store or is
  glass, water or leaves. So a voxel whose six neighbours are all present and opaque is
  left out, and a voxel with no neighbour present is included.
\<close>

theorem ChunkMesh_exposed_iff:
  "(x, y, z) \<in> set (batch (ChunkMesh blocks) t) \<longleftrightarrow>
     ((x, y, z), t) \<in> set blocks \<and>
     (\<exists>n \<in> {(x + 1, y, z), (x - 1, y, z), (x, y + 1, z), (x, y - 1, z), (x, y, z + 1), (x, y, z - 1)}.
        getBlock blocks n \<in> {None, Some glass, Some water, Some leaves})"
  by (simp only: ChunkMesh_def batch_meshLoop batch_Nil hasExposedFace_iff [symmetric]) simp

section \<open>Raycasting: water is transparent to picking\<close>

lemmas ray_eval = raycastBlocks_def normalizeV_def vlength_def divideScalar_def multiplyScalar_def
  step_def roundVec_def vadd_def getBlock_def faceNormalOf_def round_def raycastLoop.simps



lemma raycastLoop_through_water:
  "d < maxDist \<Longrightarrow> roundVec (vadd pos dir) \<noteq> prev \<Longrightarrow>
   getBlock blocks (roundVec (vadd pos dir)) = Some water \<Longrightarrow>
   raycastLoop blocks dir maxDist d pos prev =
     raycastLoop blocks dir maxDist (d + step) (vadd pos dir) (roundVec (vadd pos dir))"
  by (subst raycastLoop.simps) simp



section \<open>Raycasting: the worked example\<close>

text \<open>
  Claim C9. From origin (0, 5, 0) in direction (0, -1, 0), with bedrock at (0, 0, 0),
  nothing else along the path and maximal distance 6, the raycast returns the hit at
  voxel (0, 0, 0) with face normal (0, 1, 0).
\<close>

theorem raycast_example:
  assumes "getBlock blocks (0, 0, 0) = Some bedrock"
    and "getBlock blocks (0, 1, 0) = None" and "getBlock blocks (0, 2, 0) = None"
    and "getBlock blocks (0, 3, 0) = None" and "getBlock blocks (0, 4, 0) = None"
  shows "raycastBlocks (0, 5, 0) (0, -1, 0) blocks 6 =
           Some \<lparr>hitKey = (0, 0, 0), hitPos = (0, 0, 0), faceNormal = (0, 1, 0)\<rparr>"
  using assms
  by (simp add: raycastBlocks_def normalizeV_def vlength_def divideScalar_def multiplyScalar_def
      step_def roundVec_def vadd_def faceNormalOf_def round_def raycastLoop.simps)

theorem raycast_example_witness:
  "raycastBlocks (0, 5, 0) (0, -1, 0) [((0, 0, 0), bedrock)] 6 =
     Some \<lparr>hitKey = (0, 0, 0), hitPos = (0, 0, 0), faceNormal = (0, 1, 0)\<rparr>"
  by (rule raycast_example) (simp_all add: getBlock_def)

section \<open>Breaking and placing: bedrock, the round trip and the player guard\<close>

lemma hasBlock_iff: "hasBlock blocks k \<longleftrightarrow> k \<in> fst ` set blocks"
  by (simp add: hasBlock_def map_of_eq_None_iff)

lemma getBlock_setBlock: "getBlock (setBlock k t blocks) k' = (if k' = k then Some t else getBlock blocks k')"
  by (simp add: getBlock_def setBlock_def update_conv')

lemma deleteBlock_setBlock_new: "\<not> hasBlock blocks k \<Longrightarrow> deleteBlock k (setBlock k t blocks) = blocks"
  by (simp add: deleteBlock_def setBlock_def delete_update_same hasBlock_iff)

lemma deleteBlock_absent: "\<not> hasBlock blocks k \<Longrightarrow> deleteBlock k blocks = blocks"
  by (simp add: deleteBlock_def hasBlock_iff)

lemma getBlock_absent: "\<not> hasBlock blocks k \<Longrightarrow> getBlock blocks k = None"
  by (simp add: hasBlock_def getBlock_def)

lemma handleHit_break:
  "handleHit 0 cp selected hit blocks =
     (if getBlock blocks (hitKey hit) = Some bedrock then blocks else deleteBlock (hitKey hit) blocks)"
  by (simp add: handleHit_def)

text \<open>
  Claim C5. When the raycast of a break request (button 0) hits a coordinate that holds
  bedrock, the handler returns the store as it was: the same entries, so the same number
  of entries and the same kind at every coordinate.
\<close>

theorem break_bedrock_noop:
  assumes "raycastBlocks cp dir blocks REACH_DISTANCE = Some hit"
    and "getBlock blocks (hitKey hit) = Some bedrock"
  shows "onClick locked 0 cp dir selected blocks = blocks \<and>
         length (onClick locked 0 cp dir selected blocks) = length blocks \<and>
         (\<forall>k. getBlock (onClick locked 0 cp dir selected blocks) k = getBlock blocks k)"
  using assms by (simp add: onClick_def handleHit_def)

theorem break_bedrock_noop_witness:
  "onClick True 0 (0, 5, 0) (0, -1, 0) dirt [((0, 0, 0), bedrock)] = [((0, 0, 0), bedrock)]"
proof -
  have ray: "raycastBlocks (0, 5, 0) (0, -1, 0) [((0, 0, 0), bedrock)] REACH_DISTANCE =
      Some \<lparr>hitKey = (0, 0, 0), hitPos = (0, 0, 0), faceNormal = (0, 1, 0)\<rparr>"
    by (simp add: ray_eval REACH_DISTANCE_def)
  have held: "getBlock [((0, 0, 0), bedrock)]
      (hitKey \<lparr>hitKey = (0, 0, 0), hitPos = (0, 0, 0), faceNormal = (0, 1, 0)\<rparr>) = Some bedrock"
    by (simp add: getBlock_def)
  from break_bedrock_noop [OF ray held] show ?thesis by blast
qed

text \<open>
  Claim C4, amended. For every block kind K other than bedrock and every coordinate c that
  is empty in the store, the place branch of the handler with K selected and c as the
  placement coordinate, followed by the break branch of the handler at c, gives back the
  store as it was before the placement.
\<close>

theorem place_break_roundtrip:
  assumes "K \<noteq> bedrock"
    and "\<not> hasBlock blocks c"
    and "hitPos hit1 = (hx, hy, hz)" and "faceNormal hit1 = (nx, ny, nz)"
    and "c = (hx + nx, hy + ny, hz + nz)"
    and "hitKey hit2 = c"
  shows "handleHit 0 cp2 K2 hit2 (handleHit 2 cp1 K hit1 blocks) = blocks"
proof -
  obtain cx cy cz where cp1: "cp1 = (cx, cy, cz)" by (cases cp1)
  have "handleHit 2 cp1 K hit1 blocks = blocks \<or> handleHit 2 cp1 K hit1 blocks = setBlock c K blocks"
    using assms by (auto simp: handleHit_def cp1 toKey_def Let_def)
  then show ?thesis
  proof
    assume same: "handleHit 2 cp1 K hit1 blocks = blocks"
    show ?thesis
      unfolding same using assms(2,6)
      by (simp add: handleHit_break getBlock_absent deleteBlock_absent)
  next
    assume placed: "handleHit 2 cp1 K hit1 blocks = setBlock c K blocks"
    show ?thesis
      unfolding placed using assms(1,2,6)
      by (simp add: handleHit_break getBlock_setBlock deleteBlock_setBlock_new)
  qed
qed

theorem place_break_roundtrip_witness:
  "handleHit 0 (0, 5, 0) dirt \<lparr>hitKey = (0, 1, 0), hitPos = (0, 1, 0), faceNormal = (0, 1, 0)\<rparr>
     (handleHit 2 (0, 5, 0) dirt \<lparr>hitKey = (0, 0, 0), hitPos = (0, 0, 0), faceNormal = (0, 1, 0)\<rparr>
        [((0, 0, 0), stone)]) = [((0, 0, 0), stone)] \<and>
   handleHit 2 (0, 5, 0) dirt \<lparr>hitKey = (0, 0, 0), hitPos = (0, 0, 0), faceNormal = (0, 1, 0)\<rparr>
        [((0, 0, 0), stone)] = [((0, 0, 0), stone), ((0, 1, 0), dirt)]"
proof -
  have empty: "\<not> hasBlock [((0, 0, 0), stone)] (0, 1, 0)"
    by (simp add: hasBlock_def)
  have "handleHit 0 (0, 5, 0) dirt \<lparr>hitKey = (0, 1, 0), hitPos = (0, 1, 0), faceNormal = (0, 1, 0)\<rparr>
     (handleHit 2 (0, 5, 0) dirt \<lparr>hitKey = (0, 0, 0), hitPos = (0, 0, 0), faceNormal = (0, 1, 0)\<rparr>
        [((0, 0, 0), stone)]) = [((0, 0, 0), stone)]"
    by (rule place_break_roundtrip [where c = "(0, 1, 0)" and hx = 0 and hy = 0 and hz = 0
          and nx = 0 and ny = 1 and nz = 0, OF _ empty]) simp_all
  moreover have "handleHit 2 (0, 5, 0) dirt \<lparr>hitKey = (0, 0, 0), hitPos = (0, 0, 0), faceNormal = (0, 1, 0)\<rparr>
        [((0, 0, 0), stone)] = [((0, 0, 0), stone), ((0, 1, 0), dirt)]"
    by (simp add: handleHit_def hasBlock_def setBlock_def toKey_def PLAYER_HEIGHT_def round_def)
  ultimately show ?thesis by simp
qed

text \<open>
  The claim as stated fails for K = bedrock: the player looks down at a stone block, places
  bedrock on top of it and clicks to break what was placed; the bedrock stays.
\<close>

theorem place_break_roundtrip_counterexample:
  "getBlock [((0, 0, 0), stone)] (0, 1, 0) = None \<and>
   onClick True 2 (0, 5, 0) (0, -1, 0) bedrock [((0, 0, 0), stone)] =
     [((0, 0, 0), stone), ((0, 1, 0), bedrock)] \<and>
   raycastBlocks (0, 5, 0) (0, -1, 0) [((0, 0, 0), stone), ((0, 1, 0), bedrock)] REACH_DISTANCE =
     Some \<lparr>hitKey = (0, 1, 0), hitPos = (0, 1, 0), faceNormal = (0, 1, 0)\<rparr> \<and>
   onClick True 0 (0, 5, 0) (0, -1, 0) bedrock
     (onClick True 2 (0, 5, 0) (0, -1, 0) bedrock [((0, 0, 0), stone)]) =
     [((0, 0, 0), stone), ((0, 1, 0), bedrock)]"
proof -
  have ray1: "raycastBlocks (0, 5, 0) (0, -1, 0) [((0, 0, 0), stone)] REACH_DISTANCE =
      Some \<lparr>hitKey = (0, 0, 0), hitPos = (0, 0, 0), faceNormal = (0, 1, 0)\<rparr>"
    by (simp add: ray_eval REACH_DISTANCE_def)
  have ray2: "raycastBlocks (0, 5, 0) (0, -1, 0) [((0, 0, 0), stone), ((0, 1, 0), bedrock)] REACH_DISTANCE =
      Some \<lparr>hitKey = (0, 1, 0), hitPos = (0, 1, 0), faceNormal = (0, 1, 0)\<rparr>"
    by (simp add: ray_eval REACH_DISTANCE_def)
  have place: "onClick True 2 (0, 5, 0) (0, -1, 0) bedrock [((0, 0, 0), stone)] =
     [((0, 0, 0), stone), ((0, 1, 0), bedrock)]"
    by (simp add: onClick_def ray1 handleHit_def hasBlock_def setBlock_def toKey_def
        PLAYER_HEIGHT_def round_def)
  have break: "onClick True 0 (0, 5, 0) (0, -1, 0) bedrock [((0, 0, 0), stone), ((0, 1, 0), bedrock)] =
     [((0, 0, 0), stone), ((0, 1, 0), bedrock)]"
    by (simp add: onClick_def ray2 handleHit_def getBlock_def)
  show ?thesis
    by (simp add: place break ray2) (simp add: getBlock_def)
qed




section \<open>Physics: axis separation and the clamped timestep\<close>

text \<open>
  Claim C8. In one integration step in which the candidate X move collides and the
  candidate Z move does not, the X position is unchanged and the X velocity is zero, the
  Z position has advanced by the Z velocity times the timestep, and the Z velocity is
  what it was.
\<close>

theorem moveAxes_slide:
  assumes "position body = (x0, y0, z0)" and "velocity body = (vx0, vy0, vz0)"
    and "checkCollision blocks (x0 + vx0 * delta) y0 z0"
    and "\<not> checkCollision blocks x0 y0 (z0 + vz0 * delta)"
  shows "fst (position (moveAxes delta blocks body)) = x0 \<and>
         fst (velocity (moveAxes delta blocks body)) = 0 \<and>
         snd (snd (position (moveAxes delta blocks body))) = z0 + vz0 * delta \<and>
         snd (snd (velocity (moveAxes delta blocks body))) = vz0"
  using assms by (simp add: moveAxes_def Let_def)

lemmas collision_eval = checkCollision_def sampleOffsets_def collidesAt_def isBlockSolid_def
  getBlock_def toKey_def PLAYER_RADIUS_def PLAYER_HEIGHT_def round_def Let_def

theorem moveAxes_slide_witness:
  "position (moveAxes (1 / 20) [((1, 2, 0), stone)]
      \<lparr>position = (3 / 20, 13 / 5, 0), velocity = (2, 0, 2), onGround = False\<rparr>) =
     (3 / 20, 13 / 5, 1 / 10) \<and>
   velocity (moveAxes (1 / 20) [((1, 2, 0), stone)]
      \<lparr>position = (3 / 20, 13 / 5, 0), velocity = (2, 0, 2), onGround = False\<rparr>) = (0, 0, 2)"
proof -
  have cx: "checkCollision [((1, 2, 0), stone)] (3 / 20 + 2 * (1 / 20)) (13 / 5) 0"
    by (simp add: collision_eval)
  have cz: "\<not> checkCollision [((1, 2, 0), stone)] (3 / 20) (13 / 5) (0 + 2 * (1 / 20))"
    by (simp add: collision_eval)
  have cy: "\<not> checkCollision [((1, 2, 0), stone)] (3 / 20) (13 / 5) (1 / 10)"
    by (simp add: collision_eval)
  have "position (moveAxes (1 / 20) [((1, 2, 0), stone)]
      \<lparr>position = (3 / 20, 13 / 5, 0), velocity = (2, 0, 2), onGround = False\<rparr>) =
     (3 / 20, 13 / 5, 1 / 10)"
    using cx cz cy by (simp add: moveAxes_def Let_def)
  moreover have "velocity (moveAxes (1 / 20) [((1, 2, 0), stone)]
      \<lparr>position = (3 / 20, 13 / 5, 0), velocity = (2, 0, 2), onGround = False\<rparr>) = (0, 0, 2)"
    using cx cz cy by (simp add: moveAxes_def Let_def)
  ultimately show ?thesis
    using moveAxes_slide [of "\<lparr>position = (3 / 20, 13 / 5, 0), velocity = (2, 0, 2), onGround = False\<rparr>"
        "3 / 20" "13 / 5" 0 2 0 2 "[((1, 2, 0), stone)]" "1 / 20"] cx cz
    by simp
qed

text \<open>
  Claim C10. The frame step clamps its timestep to 0.05 seconds: for every raw frame delta
  of at least 0.05 the step gives the velocity, position and grounded flag of a step with
  delta 0.05.
\<close>

theorem useFrame_clamp:
  assumes "rawDelta \<ge> 0.05"
  shows "useFrame locked rawDelta flying keys look blocks body =
         useFrame locked 0.05 flying keys look blocks body"
proof -
  from assms have "min rawDelta 0.05 = min (0.05 :: real) 0.05"
    by (simp add: min_def)
  then show ?thesis
    by (simp only: useFrame_def)
qed

theorem useFrame_clamp_witness:
  "useFrame True 1 False {} (0, 0, -1) [((1, 2, 0), stone)]
      \<lparr>position = (3 / 20, 13 / 5, 0), velocity = (0, 0, 0), onGround = False\<rparr> =
   useFrame True 0.05 False {} (0, 0, -1) [((1, 2, 0), stone)]
      \<lparr>position = (3 / 20, 13 / 5, 0), velocity = (0, 0, 0), onGround = False\<rparr>"
  by (rule useFrame_clamp) simp

section \<open>World generation: the layers of a column\<close>

lemma getTerrainHeight_ns0: "getTerrainHeight ns0 0 0 = 8"
  by (simp add: getTerrainHeight_def fbm_def ns0_def eval_nat_numeral)

lemma fbm4_lower:
  assumes "\<forall>a b. \<bar>noise2D ns a b\<bar> \<le> 1"
  shows "- 1 \<le> fbm ns u v 4 2.0 0.5"
proof -
  have b: "- 1 \<le> noise2D ns a b" for a b
    using assms [rule_format, of a b] by linarith
  show ?thesis
    using b [of u v] b [of "u * 2" "v * 2"] b [of "u * 4" "v * 4"] b [of "u * 8" "v * 8"]
    by (simp add: fbm_def eval_nat_numeral)
qed

lemma getTerrainHeight_ge_2:
  assumes "\<forall>a b. \<bar>noise2D ns a b\<bar> \<le> 1"
  shows "2 \<le> getTerrainHeight ns x z"
proof -
  have "- 1 \<le> fbm ns (of_int x * 0.015) (of_int z * 0.015) 4 2.0 0.5"
    using assms by (rule fbm4_lower)
  then have "(2 :: real) \<le> fbm ns (of_int x * 0.015) (of_int z * 0.015) 4 2.0 0.5 * 6 + 8 +
      max 0 (fbm ns (of_int x * 0.015 * 0.5 + 100) (of_int z * 0.015 * 0.5 + 100) 3 2.0 0.6) * 8"
    by (simp add: max_def)
  then show ?thesis
    unfolding getTerrainHeight_def Let_def by (simp add: le_floor_iff)
qed


lemma getBlock_fold_setBlock:
  "getBlock (fold (\<lambda>y. setBlock (x, y, z) (f y)) ys blocks) (x', y', z') =
     (if x' = x \<and> z' = z \<and> y' \<in> set ys then Some (f y') else getBlock blocks (x', y', z'))"
  by (induction ys arbitrary: blocks) (auto simp: getBlock_setBlock)

lemma genColumn_other:
  "(x', z') \<noteq> (x, z) \<Longrightarrow>
   getBlock (fst (genColumn ns x z st)) (x', y, z') = getBlock (fst st) (x', y, z')"
  by (cases st) (auto simp: genColumn_def Let_def getBlock_fold_setBlock getBlock_setBlock toKey_def)

lemma genColumn_same:
  assumes "0 \<le> getTerrainHeight ns x z" and "0 \<le> y" and "y \<le> getTerrainHeight ns x z"
  shows "getBlock (fst (genColumn ns x z st)) (x, y, z) =
           Some (if y = 0 then bedrock else columnBlock (getBiome ns x z) (getTerrainHeight ns x z) y)"
  using assms
  by (cases st) (auto simp: genColumn_def Let_def getBlock_fold_setBlock getBlock_setBlock toKey_def)

lemma columnDone_genColumn:
  assumes "0 \<le> getTerrainHeight ns x z"
    and "(x1 = x \<and> z1 = z) \<or> columnDone ns x z st"
  shows "columnDone ns x z (genColumn ns x1 z1 st)"
proof (cases "x1 = x \<and> z1 = z")
  case True
  then show ?thesis
    using assms(1) by (simp add: columnDone_def genColumn_same)
next
  case False
  then have "(x, z) \<noteq> (x1, z1)" by auto
  with assms(2) False show ?thesis
    by (simp add: columnDone_def genColumn_other)
qed

lemma columnDone_inner:
  assumes "0 \<le> getTerrainHeight ns x z"
  shows "(x1 = x \<and> z \<in> set zs) \<or> columnDone ns x z st \<Longrightarrow>
         columnDone ns x z (fold (\<lambda>z1. genColumn ns x1 z1) zs st)"
proof (induction zs arbitrary: st)
  case Nil
  then show ?case by simp
next
  case (Cons a zs)
  have "(x1 = x \<and> z \<in> set zs) \<or> columnDone ns x z (genColumn ns x1 a st)"
  proof (cases "x1 = x \<and> z \<in> set zs")
    case True
    then show ?thesis by simp
  next
    case False
    with Cons.prems have "(x1 = x \<and> a = z) \<or> columnDone ns x z st" by auto
    then show ?thesis
      using columnDone_genColumn [OF assms] by blast
  qed
  then show ?case
    using Cons.IH by simp
qed

lemma columnDone_outer:
  assumes "0 \<le> getTerrainHeight ns x z"
  shows "(x \<in> set xs \<and> z \<in> set zs) \<or> columnDone ns x z st \<Longrightarrow>
         columnDone ns x z (fold (\<lambda>x1. fold (\<lambda>z1. genColumn ns x1 z1) zs) xs st)"
proof (induction xs arbitrary: st)
  case Nil
  then show ?case by simp
next
  case (Cons a xs)
  have "(x \<in> set xs \<and> z \<in> set zs) \<or> columnDone ns x z (fold (\<lambda>z1. genColumn ns a z1) zs st)"
  proof (cases "x \<in> set xs \<and> z \<in> set zs")
    case True
    then show ?thesis by simp
  next
    case False
    with Cons.prems have "(a = x \<and> z \<in> set zs) \<or> columnDone ns x z st" by auto
    then show ?thesis
      using columnDone_inner [OF assms] by blast
  qed
  then show ?case
    using Cons.IH by simp
qed

lemma columnPass_column:
  assumes "0 \<le> getTerrainHeight ns x z"
    and "- WORLD_SIZE \<le> x" and "x < WORLD_SIZE" and "- WORLD_SIZE \<le> z" and "z < WORLD_SIZE"
    and "0 \<le> y" and "y \<le> getTerrainHeight ns x z"
  shows "getBlock (fst (columnPass ns)) (x, y, z) =
           Some (if y = 0 then bedrock else columnBlock (getBiome ns x z) (getTerrainHeight ns x z) y)"
proof -
  have "columnDone ns x z (columnPass ns)"
    unfolding columnPass_def
    by (rule columnDone_outer [OF assms(1)]) (use assms(2-5) in simp)
  with assms(6,7) show ?thesis
    by (simp add: columnDone_def)
qed

text \<open>
  Claim C1, amended. With noise values in [-1, 1], for every column (x, z) of the world and
  its terrain height h, the column loops of the generator set y = 0 to bedrock, the top
  layer y = h to grass (sand in a desert), the next 2 layers below the top (y = h - 1 and
  y = h - 2, where they are at least 1) to dirt (sand in a desert), and every layer from
  y = 1 up to y = h - 3 to stone.
\<close>

theorem column_fill:
  assumes "\<forall>a b. \<bar>noise2D ns a b\<bar> \<le> 1"
    and "- WORLD_SIZE \<le> x" and "x < WORLD_SIZE" and "- WORLD_SIZE \<le> z" and "z < WORLD_SIZE"
    and "h = getTerrainHeight ns x z"
  shows "getBlock (fst (columnPass ns)) (x, 0, z) = Some bedrock \<and>
         getBlock (fst (columnPass ns)) (x, h, z) =
           Some (if getBiome ns x z = desert then sand else grass) \<and>
         (\<forall>y. 1 \<le> y \<and> h - 3 < y \<and> y < h \<longrightarrow>
            getBlock (fst (columnPass ns)) (x, y, z) =
              Some (if getBiome ns x z = desert then sand else dirt)) \<and>
         (\<forall>y. 1 \<le> y \<and> y \<le> h - 3 \<longrightarrow>
            getBlock (fst (columnPass ns)) (x, y, z) = Some stone)"
proof -
  have h2: "2 \<le> h"
    using assms(1,6) by (simp add: getTerrainHeight_ge_2)
  then have h0: "0 \<le> getTerrainHeight ns x z"
    using assms(6) by simp
  note col = columnPass_column [OF h0 assms(2-5)]
  show ?thesis
    using h2 assms(6) by (auto simp: col columnBlock_def)
qed

theorem column_fill_witness:
  "getBlock (fst (columnPass ns0)) (0, 0, 0) = Some bedrock \<and>
   getBlock (fst (columnPass ns0)) (0, 8, 0) = Some grass \<and>
   getBlock (fst (columnPass ns0)) (0, 7, 0) = Some dirt \<and>
   getBlock (fst (columnPass ns0)) (0, 6, 0) = Some dirt \<and>
   getBlock (fst (columnPass ns0)) (0, 5, 0) = Some stone \<and>
   getBlock (fst (columnPass ns0)) (0, 1, 0) = Some stone"
proof -
  have bound: "\<forall>a b. \<bar>noise2D ns0 a b\<bar> \<le> 1"
    by (simp add: ns0_def)
  have biome: "getBiome ns0 0 0 = plains"
    by (simp add: getBiome_def ns0_def)
  from column_fill [OF bound, of 0 0 8] show ?thesis
    by (simp add: getTerrainHeight_ns0 biome WORLD_SIZE_def)
qed

text \<open>
  The claim as stated fails at the third layer below the top: in the flat world of height
  8 the layer y = 8 - 3 is stone, not dirt.
\<close>

theorem column_fill_counterexample:
  "getTerrainHeight ns0 0 0 = 8 \<and> getBiome ns0 0 0 = plains \<and>
   getBlock (fst (genColumn ns0 0 0 ([], [], []))) (0, 8 - 3, 0) = Some stone \<and>
   getBlock (fst (columnPass ns0)) (0, 8 - 3, 0) = Some stone"
proof -
  have biome: "getBiome ns0 0 0 = plains"
    by (simp add: getBiome_def ns0_def)
  have one: "getBlock (fst (genColumn ns0 0 0 ([], [], []))) (0, 8 - 3, 0) = Some stone"
    by (simp add: genColumn_def getTerrainHeight_ns0 biome Let_def toKey_def columnBlock_def
        getBlock_fold_setBlock getBlock_setBlock)
  have "(0 :: int) \<le> getTerrainHeight ns0 0 0"
    by (simp add: getTerrainHeight_ns0)
  from columnPass_column [OF this, where y = 5]
  have "getBlock (fst (columnPass ns0)) (0, 8 - 3, 0) = Some stone"
    by (simp add: getTerrainHeight_ns0 biome WORLD_SIZE_def columnBlock_def)
  with one show ?thesis
    by (simp add: getTerrainHeight_ns0 biome)
qed

section \<open>World generation: the leaves of a tree\<close>

text \<open>The distance test of the leaf loop, on the integers.\<close>

lemma leaf_dist_iff:
  "sqrt (of_int n) \<le> of_int leafRadius + 0.5 \<longleftrightarrow> n \<le> 6"
proof -
  have "sqrt (of_int n) \<le> 5 / 2 \<longleftrightarrow> sqrt (of_int n) \<le> sqrt ((5 / 2)\<^sup>2)"
    by simp
  also have "\<dots> \<longleftrightarrow> (of_int n :: real) \<le> (5 / 2)\<^sup>2"
    by (rule real_sqrt_le_iff)
  also have "\<dots> \<longleftrightarrow> (of_int n :: real) \<le> 25 / 4"
    by (simp add: power2_eq_square)
  also have "\<dots> \<longleftrightarrow> n \<le> 6"
    by linarith
  finally show ?thesis
    by (simp add: leafRadius_def)
qed

lemma square_le_6:
  fixes a :: int
  assumes "a * a \<le> 6"
  shows "- 2 \<le> a \<and> a \<le> 2"
proof (rule ccontr)
  assume "\<not> (- 2 \<le> a \<and> a \<le> 2)"
  then have "3 \<le> \<bar>a\<bar>" by linarith
  then have "3 * 3 \<le> \<bar>a\<bar> * \<bar>a\<bar>"
    by (intro mult_mono) simp_all
  then show False
    using assms by (simp add: abs_mult_self_eq)
qed

lemma set_triples:
  "(a, b, c) \<in> set (concat (map (\<lambda>x. concat (map (\<lambda>y. map (\<lambda>z. (x, y, z)) zs) ys)) xs)) \<longleftrightarrow>
     a \<in> set xs \<and> b \<in> set ys \<and> c \<in> set zs"
  by auto

lemma leafOffsets_iff:
  "(lx, ly, lz) \<in> set leafOffsets \<longleftrightarrow>
     - 2 \<le> lx \<and> lx \<le> 2 \<and> - 1 \<le> ly \<and> ly \<le> 2 \<and> - 2 \<le> lz \<and> lz \<le> 2"
  unfolding leafOffsets_def leafRadius_def set_triples set_upto atLeastAtMost_iff
  by simp

lemma getBlock_leafStep:
  "getBlock (leafStep tx c tz (lx, ly, lz) blocks) k =
     (if sqrt (of_int (lx * lx + ly * ly + lz * lz)) \<le> of_int leafRadius + 0.5 \<and>
         k = (tx + lx, c + ly, tz + lz) \<and> getBlock blocks k \<noteq> Some wood
      then Some leaves else getBlock blocks k)"
  by (auto simp: leafStep_def Let_def toKey_def getBlock_setBlock getBlock_absent)

lemma getBlock_fold_leafStep:
  "getBlock (fold (leafStep tx c tz) offs blocks) k =
     (if (\<exists>(lx, ly, lz) \<in> set offs.
            sqrt (of_int (lx * lx + ly * ly + lz * lz)) \<le> of_int leafRadius + 0.5 \<and>
            k = (tx + lx, c + ly, tz + lz)) \<and>
         getBlock blocks k \<noteq> Some wood
      then Some leaves else getBlock blocks k)"
proof (induction offs arbitrary: blocks)
  case Nil
  show ?case by simp
next
  case (Cons off offs)
  obtain lx ly lz where off: "off = (lx, ly, lz)" by (cases off)
  show ?case
    unfolding off fold_Cons comp_apply Cons.IH
    by (auto simp: getBlock_leafStep)
qed

lemma getBlock_placeTrunk:
  "getBlock (placeTrunk ns (tx, tz, h) blocks) (x, y, z) =
     (if x = tx \<and> z = tz \<and> h + 1 \<le> y \<and> y \<le> h + trunkHeight ns (tx, tz, h)
      then Some wood else getBlock blocks (x, y, z))"
proof -
  have "getBlock (fold (\<lambda>y. setBlock (tx, h + 1 + y, tz) wood) ys blocks) (x, y, z) =
     (if x = tx \<and> z = tz \<and> y - (h + 1) \<in> set ys then Some wood else getBlock blocks (x, y, z))"
    for ys
    by (induction ys arbitrary: blocks) (auto simp: getBlock_setBlock)
  then show ?thesis
    by (auto simp: placeTrunk_def Let_def toKey_def)
qed

lemma getBlock_placeTree:
  "getBlock (placeTree ns (tx, tz, h) blocks) k =
     (if k = (tx, h + trunkHeight ns (tx, tz, h) + 3, tz) then Some leaves
      else if (\<exists>(lx, ly, lz) \<in> set leafOffsets.
                 sqrt (of_int (lx * lx + ly * ly + lz * lz)) \<le> of_int leafRadius + 0.5 \<and>
                 k = (tx + lx, h + trunkHeight ns (tx, tz, h) + ly, tz + lz)) \<and>
              getBlock (placeTrunk ns (tx, tz, h) blocks) k \<noteq> Some wood
      then Some leaves
      else getBlock (placeTrunk ns (tx, tz, h) blocks) k)"
  by (simp add: placeTree_def Let_def toKey_def getBlock_setBlock getBlock_fold_leafStep leafRadius_def)

text \<open>
  Claim C6, amended. For a tree at column (x, z) on terrain height h, the centre of the
  leaf sphere is the top voxel of the trunk, at height h + trunkHeight. Every integer
  offset (lx, ly, lz) with ly at least -1 and Euclidean length at most 2.5 holds leaves
  after the tree is placed, unless the coordinate held wood when the leaves were set (wood
  of the store before, or the trunk of this tree), in which case it still holds wood; and
  the voxel 3 above the centre holds leaves.
\<close>

theorem tree_leaves:
  assumes "sqrt (of_int (lx * lx + ly * ly + lz * lz)) \<le> 2.5" and "- 1 \<le> ly"
    and "c = h + trunkHeight ns (x, z, h)"
  shows "getBlock (placeTree ns (x, z, h) blocks) (x + lx, c + ly, z + lz) =
           (if getBlock (placeTrunk ns (x, z, h) blocks) (x + lx, c + ly, z + lz) = Some wood
            then Some wood else Some leaves) \<and>
         getBlock (placeTree ns (x, z, h) blocks) (x, c + 3, z) = Some leaves"
proof -
  have n6: "lx * lx + ly * ly + lz * lz \<le> 6"
    using assms(1) leaf_dist_iff [of "lx * lx + ly * ly + lz * lz"]
    by (simp add: leafRadius_def)
  have "0 \<le> lx * lx" and "0 \<le> ly * ly" and "0 \<le> lz * lz"
    by simp_all
  with n6 have "lx * lx \<le> 6" and "ly * ly \<le> 6" and "lz * lz \<le> 6"
    by linarith+
  then have "- 2 \<le> lx \<and> lx \<le> 2" and "ly \<le> 2" and "- 2 \<le> lz \<and> lz \<le> 2"
    by (simp_all add: square_le_6)
  with assms(2) have mem: "(lx, ly, lz) \<in> set leafOffsets"
    by (simp add: leafOffsets_iff)
  define k where "k = (x + lx, c + ly, z + lz)"
  have far: "k \<noteq> (x, h + trunkHeight ns (x, z, h) + 3, z)"
    using \<open>ly \<le> 2\<close> by (simp add: k_def assms(3))
  have ex: "\<exists>(lx', ly', lz') \<in> set leafOffsets.
      sqrt (of_int (lx' * lx' + ly' * ly' + lz' * lz')) \<le> of_int leafRadius + 0.5 \<and>
      k = (x + lx', h + trunkHeight ns (x, z, h) + ly', z + lz')"
    using mem assms(1)
    by (intro bexI [of _ "(lx, ly, lz)"]) (simp_all add: leafRadius_def k_def assms(3))
  have "getBlock (placeTree ns (x, z, h) blocks) k =
      (if getBlock (placeTrunk ns (x, z, h) blocks) k = Some wood then Some wood else Some leaves)"
    unfolding getBlock_placeTree using far ex by simp
  moreover have "getBlock (placeTree ns (x, z, h) blocks) (x, c + 3, z) = Some leaves"
    by (simp add: getBlock_placeTree assms(3))
  ultimately show ?thesis
    by (simp add: k_def)
qed


lemma getBlock_Nil: "getBlock [] k = None"
  by (simp add: getBlock_def)

lemma trunkHeight_ns0: "trunkHeight ns0 (0, 0, 8) = 4"
  by (simp add: trunkHeight_def ns0_def)

theorem tree_leaves_witness:
  "getBlock (placeTree ns0 (0, 0, 8) []) (1, 13, 1) = Some leaves \<and>
   getBlock (placeTree ns0 (0, 0, 8) []) (0, 15, 0) = Some leaves"
proof -
  have d: "sqrt (of_int (1 * 1 + 1 * 1 + 1 * 1)) \<le> (2.5 :: real)"
    using leaf_dist_iff [of "1 * 1 + 1 * 1 + 1 * 1"] by (simp add: leafRadius_def)
  have c: "(12 :: int) = 8 + trunkHeight ns0 (0, 0, 8)"
    by (simp add: trunkHeight_ns0)
  have free: "getBlock (placeTrunk ns0 (0, 0, 8) []) (1, 13, 1) = None"
    by (simp add: getBlock_placeTrunk getBlock_Nil)
  from tree_leaves [OF d _ c, where blocks = "[]"] free show ?thesis
    by simp
qed

text \<open>
  The claim as stated fails below the centre. A tree on terrain height 8 with trunk height
  4 has its trunk top at y = 12. The offset (1, -2, 0) has length at most 2.5, but neither
  the voxel at that offset from y = 11 (one below the trunk top) nor the one at that
  offset from y = 12 (the trunk top) receives leaves: the leaf loop starts at ly = -1.
\<close>

theorem tree_leaves_counterexample:
  "trunkHeight ns0 (0, 0, 8) = 4 \<and>
   sqrt (of_int (1 * 1 + (- 2) * (- 2) + 0 * 0)) \<le> (2.5 :: real) \<and>
   getBlock (placeTree ns0 (0, 0, 8) []) (0 + 1, 11 + (- 2), 0 + 0) = None \<and>
   getBlock (placeTree ns0 (0, 0, 8) []) (0 + 1, 12 + (- 2), 0 + 0) = None"
proof -
  have d: "sqrt (of_int (1 * 1 + (- 2) * (- 2) + 0 * 0)) \<le> (2.5 :: real)"
    using leaf_dist_iff [of "1 * 1 + (- 2) * (- 2) + 0 * 0"] by (simp add: leafRadius_def)
  have none: "getBlock (placeTree ns0 (0, 0, 8) []) (1, y, 0) = None" if "y < 11" for y
    using that
    by (auto simp: getBlock_placeTree getBlock_placeTrunk trunkHeight_ns0 leafOffsets_iff getBlock_Nil)
  show ?thesis
    using d none [of 9] none [of 10] by (simp add: trunkHeight_ns0)
qed

end
